theory Spec2Isabelle
  imports Complex_Main "HOL-Library.AList"
begin

section \<open>Python values used by the indexer and the retriever\<close>

text \<open>
  A Python \<open>str\<close> and a Python \<open>bytes\<close> are both modelled as \<open>string\<close>: a list of
  8-bit characters, read as code points below 256 for \<open>str\<close> and as byte values for
  \<open>bytes\<close>. Embedding vectors are lists of rationals: every finite float32 is a rational,
  and distances are computed exactly (rounding is not modelled).
\<close>

type_synonym bytes = string
type_synonym path = string
type_synonym vec = "rat list"

text \<open>
  The exceptions the two modules can meet; all of them derive from Python's \<open>Exception\<close>,
  which is what both \<open>except Exception\<close> handlers catch. \<open>CollaboratorError\<close> stands
  for whatever an external model raises.
\<close>

datatype py_exn =
    FileNotFoundError
  | IsADirectoryError
  | NotADirectoryError
  | PermissionError
  | FileExistsError
  | UnicodeDecodeError
  | LookupError
  | IndexError
  | ValueError
  | AssertionError
  | RuntimeError
  | CollaboratorError string

subsection \<open>\<open>str\<close> methods\<close>

definition py_ord :: "char \<Rightarrow> nat" where
  "py_ord c = of_char c"

text \<open>\<open>str.isspace\<close> on the code points below 256: TAB..CR, FS..US, space, NEL, NBSP.\<close>

definition py_isspace :: "char \<Rightarrow> bool" where
  "py_isspace c = (let n = py_ord c in
     (9 \<le> n \<and> n \<le> 13) \<or> (28 \<le> n \<and> n \<le> 32) \<or> n = 133 \<or> n = 160)"

text \<open>\<open>str.lower\<close> on the code points below 256: A..Z and the Latin-1 capitals
  (0xC0..0xDE without the multiplication sign 0xD7) move up by 32.\<close>

definition py_lower_char :: "char \<Rightarrow> char" where
  "py_lower_char c = (let n = py_ord c in
     if (65 \<le> n \<and> n \<le> 90) \<or> (192 \<le> n \<and> n \<le> 222 \<and> n \<noteq> 215)
     then char_of (n + 32) else c)"

definition py_lower :: "string \<Rightarrow> string" where
  "py_lower s = map py_lower_char s"

definition py_strip :: "string \<Rightarrow> string" where
  "py_strip s = rev (dropWhile py_isspace (rev (dropWhile py_isspace s)))"

text \<open>\<open>str(n)\<close> for an integer: decimal digits, with a minus sign below zero.\<close>

fun py_str_nat :: "nat \<Rightarrow> string" where
  "py_str_nat n =
     (if n < 10 then [char_of (48 + n)]
      else py_str_nat (n div 10) @ [char_of (48 + n mod 10)])"

declare py_str_nat.simps [simp del]

definition py_str_int :: "int \<Rightarrow> string" where
  "py_str_int i = (if i < 0 then CHR ''-'' # py_str_nat (nat (- i)) else py_str_nat (nat i))"

text \<open>\<open>s.split(c)\<close>, \<open>c.join(parts)\<close> and \<open>s.rfind(c)\<close>.\<close>

fun py_split :: "char \<Rightarrow> string \<Rightarrow> string list" where
  "py_split c [] = [[]]"
| "py_split c (x # xs) =
     (if x = c then [] # py_split c xs
      else (case py_split c xs of
              [] \<Rightarrow> [[x]]
            | part # parts \<Rightarrow> (x # part) # parts))"

fun py_join :: "string \<Rightarrow> string list \<Rightarrow> string" where
  "py_join sep [] = []"
| "py_join sep [p] = p"
| "py_join sep (p # q # ps) = p @ sep @ py_join sep (q # ps)"

definition py_rfind :: "char \<Rightarrow> string \<Rightarrow> int" where
  "py_rfind c s =
     (if c \<in> set s
      then int (length s) - 1 - int (length (takeWhile (\<lambda>x. x \<noteq> c) (rev s)))
      else - 1)"

subsection \<open>\<open>os.path\<close> (POSIX)\<close>

definition isabs :: "path \<Rightarrow> bool" where
  "isabs p = (case p of [] \<Rightarrow> False | c # _ \<Rightarrow> c = CHR ''/'')"

text \<open>\<open>os.path.join(a, b)\<close>.\<close>

definition path_join :: "path \<Rightarrow> path \<Rightarrow> path" where
  "path_join a b =
     (if isabs b then b
      else if a = [] \<or> last a = CHR ''/'' then a @ b
      else a @ ''/'' @ b)"

text \<open>\<open>os.path.splitext(p)[-1]\<close>: the extension starts at the last dot of the last
  component, unless only dots precede it there.\<close>

definition splitext_ext :: "path \<Rightarrow> string" where
  "splitext_ext p =
     (let sepIndex = py_rfind (CHR ''/'') p;
          dotIndex = py_rfind (CHR ''.'') p
      in if dotIndex > sepIndex \<and>
            list_ex (\<lambda>c. c \<noteq> CHR ''.'')
              (take (nat dotIndex - nat (sepIndex + 1)) (drop (nat (sepIndex + 1)) p))
         then drop (nat dotIndex) p
         else [])"

text \<open>One round of the loop of \<open>os.path.normpath\<close> over the components.\<close>

definition norm_step :: "nat \<Rightarrow> string list \<Rightarrow> string \<Rightarrow> string list" where
  "norm_step initial_slashes new_comps part =
     (if part = [] \<or> part = ''.'' then new_comps
      else if part \<noteq> ''..'' \<or> (initial_slashes = 0 \<and> new_comps = [])
              \<or> (new_comps \<noteq> [] \<and> last new_comps = ''..'')
      then new_comps @ [part]
      else if new_comps \<noteq> [] then butlast new_comps
      else new_comps)"

definition normpath :: "path \<Rightarrow> path" where
  "normpath p =
     (if p = [] then ''.''
      else
        let initial_slashes =
              (if isabs p
               then (if take 2 p = ''//'' \<and> take 3 p \<noteq> ''///'' then 2 else 1)
               else (0::nat));
            comps = foldl (norm_step initial_slashes) [] (py_split (CHR ''/'') p);
            res = replicate initial_slashes (CHR ''/'') @ py_join ''/'' comps
        in if res = [] then ''.'' else res)"

text \<open>\<open>os.path.abspath(p)\<close>, with the working directory as an argument.\<close>

definition abspath :: "path \<Rightarrow> path \<Rightarrow> path" where
  "abspath wd p = normpath (if isabs p then p else path_join wd p)"

section \<open>The similarity index (FAISS \<open>IndexFlatL2\<close>)\<close>

record faiss_index =
  dim :: nat
  vectors :: "vec list"

definition IndexFlatL2 :: "nat \<Rightarrow> faiss_index" where
  "IndexFlatL2 d = \<lparr>dim = d, vectors = []\<rparr>"

definition ntotal :: "faiss_index \<Rightarrow> nat" where
  "ntotal index = length (vectors index)"

text \<open>\<open>index.add(x)\<close>: the rows are appended in order; a row of another width fails the
  wrapper's assertion.\<close>

definition index_add :: "faiss_index \<Rightarrow> vec list \<Rightarrow> py_exn + faiss_index" where
  "index_add index xs =
     (if list_all (\<lambda>x. length x = dim index) xs
      then Inr (index\<lparr>vectors := vectors index @ xs\<rparr>)
      else Inl AssertionError)"

definition l2sqr :: "vec \<Rightarrow> vec \<Rightarrow> rat" where
  "l2sqr x y = sum_list (map (\<lambda>(a, b). (a - b) * (a - b)) (zip x y))"

definition flt_max :: rat where
  "flt_max = 340282346638528859811704183484516925440"

text \<open>
  The \<open>k\<close> nearest stored vectors of one query: distances and ordinals by increasing
  squared L2 distance, equal distances in order of ordinal, padded with the largest float
  and \<open>-1\<close> when the index holds fewer than \<open>k\<close> vectors.
\<close>

definition knn :: "faiss_index \<Rightarrow> vec \<Rightarrow> nat \<Rightarrow> rat list \<times> int list" where
  "knn index q k =
     (let ranked = sort_key fst
            (zip (map (l2sqr q) (vectors index)) (map int [0..<length (vectors index)]));
          hits = take k ranked;
          missing = k - length hits
      in (map fst hits @ replicate missing flt_max, map snd hits @ replicate missing (- 1)))"

text \<open>\<open>index.search(x, k)\<close>: one row of distances and one row of ordinals per query.\<close>

definition index_search ::
  "faiss_index \<Rightarrow> vec list \<Rightarrow> int \<Rightarrow> py_exn + (rat list list \<times> int list list)" where
  "index_search index xs k =
     (if xs = [] then Inl ValueError
      else if \<not> list_all (\<lambda>x. length x = dim index) xs then Inl AssertionError
      else if k \<le> 0 then Inl AssertionError
      else Inr (map (\<lambda>q. fst (knn index q (nat k))) xs,
                map (\<lambda>q. snd (knn index q (nat k))) xs))"

text \<open>\<open>np.array(embeddings).astype("float32")\<close>: rows of unequal length are refused.\<close>

definition np_array :: "vec list \<Rightarrow> py_exn + vec list" where
  "np_array rows =
     (case rows of
        [] \<Rightarrow> Inr []
      | r # rs \<Rightarrow> if list_all (\<lambda>x. length x = length r) rs then Inr rows else Inl ValueError)"

text \<open>\<open>embeddings.shape[1]\<close>: an empty batch has the shape \<open>(0,)\<close>.\<close>

definition shape1 :: "vec list \<Rightarrow> py_exn + nat" where
  "shape1 rows = (case rows of [] \<Rightarrow> Inl IndexError | r # _ \<Rightarrow> Inr (length r))"

section \<open>The file system\<close>

text \<open>
  A file system is the list of its entries in creation order, each keyed by the components
  of its absolute path; the root directory is always there. Beside plain files there are
  the two artefacts the indexer writes, kept structured.
\<close>

datatype node =
    Dir
  | File bytes
  | NoAccess
  | FaissFile faiss_index
  | JsonFile "(string \<times> string) list"

record world =
  cwd :: path
  entries :: "(string list \<times> node) list"

definition locate :: "world \<Rightarrow> path \<Rightarrow> string list" where
  "locate w p = filter (\<lambda>c. c \<noteq> []) (py_split (CHR ''/'') (abspath (cwd w) p))"

definition lookup :: "world \<Rightarrow> string list \<Rightarrow> node option" where
  "lookup w cs = (if cs = [] then Some Dir else map_of (entries w) cs)"

definition node_at :: "world \<Rightarrow> path \<Rightarrow> node option" where
  "node_at w p = (if p = [] then None else lookup w (locate w p))"

definition os_path_exists :: "world \<Rightarrow> path \<Rightarrow> bool" where
  "os_path_exists w p = (node_at w p \<noteq> None)"

definition os_path_isdir :: "world \<Rightarrow> path \<Rightarrow> bool" where
  "os_path_isdir w p = (node_at w p = Some Dir)"

definition os_listdir :: "world \<Rightarrow> path \<Rightarrow> py_exn + string list" where
  "os_listdir w p =
     (case node_at w p of
        None \<Rightarrow> Inl FileNotFoundError
      | Some Dir \<Rightarrow>
          Inr (map (\<lambda>(cs, n). last cs)
                 (filter (\<lambda>(cs, n). cs \<noteq> [] \<and> butlast cs = locate w p) (entries w)))
      | Some _ \<Rightarrow> Inl NotADirectoryError)"

text \<open>\<open>open(p, 'w')\<close> or \<open>open(p, 'wb')\<close> followed by the write of the whole content.\<close>

definition open_write :: "world \<Rightarrow> path \<Rightarrow> node \<Rightarrow> py_exn + world" where
  "open_write w p content =
     (if p = [] then Inl FileNotFoundError
      else
        let cs = locate w p in
        if cs = [] then Inl IsADirectoryError
        else
          (case lookup w (butlast cs) of
             None \<Rightarrow> Inl FileNotFoundError
           | Some Dir \<Rightarrow>
               (case lookup w cs of
                  Some Dir \<Rightarrow> Inl IsADirectoryError
                | Some NoAccess \<Rightarrow> Inl PermissionError
                | _ \<Rightarrow> Inr (w\<lparr>entries := AList.update cs content (entries w)\<rparr>))
           | Some _ \<Rightarrow> Inl NotADirectoryError))"

definition os_remove :: "world \<Rightarrow> path \<Rightarrow> py_exn + world" where
  "os_remove w p =
     (case node_at w p of
        None \<Rightarrow> Inl FileNotFoundError
      | Some Dir \<Rightarrow> Inl IsADirectoryError
      | Some _ \<Rightarrow> Inr (w\<lparr>entries := AList.delete (locate w p) (entries w)\<rparr>))"

text \<open>\<open>os.makedirs(p, exist_ok=True)\<close>: every missing directory on the way is created.\<close>

fun mkdirs ::
  "string list \<Rightarrow> string list \<Rightarrow> (string list \<times> node) list
     \<Rightarrow> py_exn + (string list \<times> node) list" where
  "mkdirs made [] es = Inr es"
| "mkdirs made (c # rest) es =
     (case map_of es (made @ [c]) of
        None \<Rightarrow> mkdirs (made @ [c]) rest (es @ [(made @ [c], Dir)])
      | Some Dir \<Rightarrow> mkdirs (made @ [c]) rest es
      | Some _ \<Rightarrow> Inl (if rest = [] then FileExistsError else NotADirectoryError))"

definition os_makedirs :: "world \<Rightarrow> path \<Rightarrow> py_exn + world" where
  "os_makedirs w p =
     (if p = [] then Inl FileNotFoundError
      else (case mkdirs [] (locate w p) (entries w) of
              Inl e \<Rightarrow> Inl e
            | Inr es \<Rightarrow> Inr (w\<lparr>entries := es\<rparr>)))"

section \<open>External collaborators\<close>

text \<open>
  What the modules import and call but do not define: the encoding detector, the codec
  table, the embedding and judge model loaders, the \<open>repr\<close> of bytes that an f-string
  inserts, and the byte serialisations of the two artefacts.
\<close>

type_synonym encoder = "string list \<Rightarrow> py_exn + vec list"
type_synonym judge = "string list \<Rightarrow> py_exn + string"

record platform =
  detect :: "bytes \<Rightarrow> string option"
  codec :: "string option \<Rightarrow> bytes \<Rightarrow> py_exn + string"
  sentence_transformer :: "string \<Rightarrow> py_exn + encoder"
  load_model :: "string \<Rightarrow> py_exn + judge"
  repr_bytes :: "bytes \<Rightarrow> string"
  index_bytes :: "faiss_index \<Rightarrow> bytes"
  json_bytes :: "(string \<times> string) list \<Rightarrow> bytes"

text \<open>\<open>open(p, 'rb').read()\<close>.\<close>

definition read_binary :: "platform \<Rightarrow> world \<Rightarrow> path \<Rightarrow> py_exn + bytes" where
  "read_binary P w p =
     (case node_at w p of
        None \<Rightarrow> Inl FileNotFoundError
      | Some Dir \<Rightarrow> Inl IsADirectoryError
      | Some NoAccess \<Rightarrow> Inl PermissionError
      | Some (File b) \<Rightarrow> Inr b
      | Some (FaissFile index) \<Rightarrow> Inr (index_bytes P index)
      | Some (JsonFile obj) \<Rightarrow> Inr (json_bytes P obj))"

text \<open>Text mode turns \<open>\r\n\<close> and a lone \<open>\r\<close> into \<open>\n\<close>.\<close>

fun universal_newlines :: "string \<Rightarrow> string" where
  "universal_newlines [] = []"
| "universal_newlines [c] = (if c = CHR 0x0D then [CHR 0x0A] else [c])"
| "universal_newlines (c # d # s) =
     (if c = CHR 0x0D \<and> d = CHR 0x0A then CHR 0x0A # universal_newlines s
      else if c = CHR 0x0D then CHR 0x0A # universal_newlines (d # s)
      else c # universal_newlines (d # s))"

text \<open>Decoding in text mode. latin1 maps every byte to the code point of the same value
  and cannot fail; every other encoding is looked up in the platform's codec table, which
  may refuse the bytes (\<open>UnicodeDecodeError\<close>) or the name (\<open>LookupError\<close>).\<close>

definition decode_text :: "platform \<Rightarrow> string option \<Rightarrow> bytes \<Rightarrow> py_exn + string" where
  "decode_text P enc raw =
     (if enc = Some ''latin1'' then Inr (universal_newlines raw) else codec P enc raw)"

text \<open>\<open>open(p, 'r', encoding=enc).read()\<close>.\<close>

definition read_text :: "platform \<Rightarrow> world \<Rightarrow> path \<Rightarrow> string option \<Rightarrow> py_exn + string" where
  "read_text P w p enc =
     (case read_binary P w p of
        Inl e \<Rightarrow> Inl e
      | Inr raw \<Rightarrow> decode_text P enc raw)"

section \<open>The indexer (\<open>utils/indexer.py\<close>)\<close>

text \<open>The dictionary is built by one assignment per enumerated filename; a Python
  dictionary keeps its keys in insertion order, as the association list does.\<close>

definition create_filenames_mapping :: "string list \<Rightarrow> (nat \<times> string) list" where
  "create_filenames_mapping filenames =
     fold (\<lambda>(idx, doc_file) filenames_mapping. AList.update idx doc_file filenames_mapping)
       (enumerate 0 filenames) []"

text \<open>Three opens of the same path: the raw bytes for the detector, the text under the
  detected encoding, and the text under latin1 after a \<open>UnicodeDecodeError\<close> only.\<close>

definition read_file_with_fallback :: "platform \<Rightarrow> world \<Rightarrow> path \<Rightarrow> py_exn + string" where
  "read_file_with_fallback P w file_path =
     (case read_binary P w file_path of
        Inl e \<Rightarrow> Inl e
      | Inr raw_data \<Rightarrow>
          (let detected_encoding = detect P raw_data in
           case read_text P w file_path detected_encoding of
             Inl UnicodeDecodeError \<Rightarrow> read_text P w file_path (Some ''latin1'')
           | Inl e \<Rightarrow> Inl e
           | Inr text \<Rightarrow> Inr text))"

text \<open>The loop over the directory listing: \<open>docs\<close> and \<open>filenames\<close> grow together, and
  an entry whose read raises is left out of both.\<close>

fun load_documents ::
  "platform \<Rightarrow> world \<Rightarrow> path \<Rightarrow> string list \<Rightarrow> string list \<Rightarrow> string list
     \<Rightarrow> string list \<times> string list" where
  "load_documents P w folder_path [] docs filenames = (docs, filenames)"
| "load_documents P w folder_path (filename # rest) docs filenames =
     (case read_file_with_fallback P w (path_join folder_path filename) of
        Inr content \<Rightarrow>
          load_documents P w folder_path rest (docs @ [content]) (filenames @ [filename])
      | Inl e \<Rightarrow> load_documents P w folder_path rest docs filenames)"

text \<open>The filtered document list in the words of the specification: the names of the
  listing whose read succeeds, in listing order, and the texts read from them.\<close>

definition filtered_filenames :: "platform \<Rightarrow> world \<Rightarrow> path \<Rightarrow> string list \<Rightarrow> string list" where
  "filtered_filenames P w folder_path names =
     filter (\<lambda>n. \<not> isl (read_file_with_fallback P w (path_join folder_path n))) names"

definition filtered_docs :: "platform \<Rightarrow> world \<Rightarrow> path \<Rightarrow> string list \<Rightarrow> string list" where
  "filtered_docs P w folder_path names =
     map (\<lambda>n. projr (read_file_with_fallback P w (path_join folder_path n)))
       (filtered_filenames P w folder_path names)"

text \<open>\<open>json.dump\<close> of the mapping: an object whose keys are the decimal ordinals.\<close>

definition json_dump :: "(nat \<times> string) list \<Rightarrow> node" where
  "json_dump filenames_mapping =
     JsonFile (map (\<lambda>(idx, doc_file). (py_str_int (int idx), doc_file)) filenames_mapping)"

text \<open>\<open>faiss.write_index\<close>: any failure to open the target is a \<open>RuntimeError\<close>.\<close>

definition write_index :: "world \<Rightarrow> faiss_index \<Rightarrow> path \<Rightarrow> py_exn + world" where
  "write_index w index p =
     (case open_write w p (FaissFile index) of
        Inl e \<Rightarrow> Inl RuntimeError
      | Inr w' \<Rightarrow> Inr w')"

text \<open>Where the mapping goes for a given \<open>index_path\<close>.\<close>

definition mapping_path :: "world \<Rightarrow> path \<Rightarrow> path" where
  "mapping_path w index_path =
     abspath (cwd w) (path_join index_path ''faiss_index_file_mapping.json'')"

text \<open>The block under \<open>if index_path:\<close>.\<close>

definition save_index ::
  "world \<Rightarrow> faiss_index \<Rightarrow> string list \<Rightarrow> path \<Rightarrow> (py_exn + faiss_index) \<times> world" where
  "save_index w index filenames index_path =
     (case (if os_path_isdir w index_path
            then write_index w index (path_join index_path ''index.faiss'')
            else Inr w) of
        Inl e \<Rightarrow> (Inl e, w)
      | Inr w1 \<Rightarrow>
          (let filenames_mapping = create_filenames_mapping filenames;
               mapping_path =
                 abspath (cwd w1) (path_join index_path ''faiss_index_file_mapping.json'')
           in case open_write w1 mapping_path (json_dump filenames_mapping) of
                Inl e \<Rightarrow> (Inl e, w1)
              | Inr w2 \<Rightarrow> (Inr index, w2)))"

text \<open>The second half of \<open>index_documents\<close>, from the loading of the embedding model
  to the return: embed the documents read, build the index, save it when asked to.\<close>

definition embed_and_index ::
  "platform \<Rightarrow> world \<Rightarrow> string list \<Rightarrow> string list \<Rightarrow> path option \<Rightarrow> string
     \<Rightarrow> (py_exn + faiss_index) \<times> world" where
  "embed_and_index P w docs filenames index_path indexer_model =
     (case sentence_transformer P indexer_model of
        Inl e \<Rightarrow> (Inl e, w)
      | Inr model \<Rightarrow>
          (case model docs of
             Inl e \<Rightarrow> (Inl e, w)
           | Inr encoded \<Rightarrow>
               (case np_array encoded of
                  Inl e \<Rightarrow> (Inl e, w)
                | Inr embeddings \<Rightarrow>
                    (case shape1 embeddings of
                       Inl e \<Rightarrow> (Inl e, w)
                     | Inr d \<Rightarrow>
                         (case index_add (IndexFlatL2 d) embeddings of
                            Inl e \<Rightarrow> (Inl e, w)
                          | Inr index \<Rightarrow>
                              (case index_path of
                                 None \<Rightarrow> (Inr index, w)
                               | Some ip \<Rightarrow>
                                   if ip = [] then (Inr index, w)
                                   else save_index w index filenames ip))))))"

text \<open>\<open>index_documents\<close>: the result is the index or the exception that is raised again,
  together with the file system as the call leaves it.\<close>

definition index_documents ::
  "platform \<Rightarrow> world \<Rightarrow> path \<Rightarrow> path option \<Rightarrow> string
     \<Rightarrow> (py_exn + faiss_index) \<times> world" where
  "index_documents P w folder_path index_path indexer_model =
     (case os_listdir w folder_path of
        Inl e \<Rightarrow> (Inl e, w)
      | Inr names \<Rightarrow>
          (let (docs, filenames) = load_documents P w folder_path names [] []
           in embed_and_index P w docs filenames index_path indexer_model))"

section \<open>The retriever (\<open>utils/retriever.py\<close>)\<close>

text \<open>The prompt: a list of one f-string, into which the chunk goes by its \<open>repr\<close>.\<close>

definition relevance_prompt :: "platform \<Rightarrow> bytes \<Rightarrow> string \<Rightarrow> string list" where
  "relevance_prompt P chunk query =
     [''system role: Given the user question: '' @ query @
      '', is the following text relevant and can be useful to '' @
      ''answer to the question?'' @ [CHR 0x0A, CHR 0x0A] @ repr_bytes P chunk @
      [CHR 0x0A, CHR 0x0A] @ ''Answer '' @ [CHR 0x27] @ ''yes'' @ [CHR 0x27] @
      '' or '' @ [CHR 0x27] @ ''no'' @ [CHR 0x27] @ ''.'']"

definition analyze_chunk_with_llm ::
  "platform \<Rightarrow> judge \<Rightarrow> bytes \<Rightarrow> string \<Rightarrow> py_exn + (bool \<times> bytes)" where
  "analyze_chunk_with_llm P model chunk query =
     (let content = relevance_prompt P chunk query
      in case model content of
           Inl e \<Rightarrow> Inl e
         | Inr text \<Rightarrow> Inr (py_lower (py_strip text) = ''yes'', chunk))"

text \<open>The body of the loop over the search results, for one ordinal: the list of files
  and the file system go in and come out, or an exception leaves with the file system as
  it is at that point.\<close>

definition retrieve_one ::
  "platform \<Rightarrow> judge \<Rightarrow> string \<Rightarrow> (int \<Rightarrow> string option) \<Rightarrow> path \<Rightarrow> int
     \<Rightarrow> string list \<Rightarrow> world \<Rightarrow> (py_exn + string list) \<times> world" where
  "retrieve_one P model query filenames_mapping session_documents_folder idx files w =
     (case filenames_mapping idx of
        None \<Rightarrow> (Inr files, w)
      | Some doc_filename \<Rightarrow>
          if doc_filename = [] then (Inr files, w)
          else
            let doc_path = abspath (cwd w) (path_join ''uploaded_documents'' doc_filename) in
            if \<not> os_path_exists w doc_path then (Inr files, w)
            else
              let dest_path = path_join session_documents_folder
                                (py_str_int idx @ splitext_ext doc_filename) in
              (case (if os_path_exists w dest_path then os_remove w dest_path else Inr w) of
                 Inl e \<Rightarrow> (Inl e, w)
               | Inr w1 \<Rightarrow>
                   (case read_binary P w1 doc_path of
                      Inl e \<Rightarrow> (Inl e, w1)
                    | Inr content \<Rightarrow>
                        (case analyze_chunk_with_llm P model content query of
                           Inl e \<Rightarrow> (Inl e, w1)
                         | Inr (is_relevant, useful_chunk) \<Rightarrow>
                             if \<not> is_relevant then (Inr files, w1)
                             else
                               (case open_write w1 dest_path (File useful_chunk) of
                                  Inl e \<Rightarrow> (Inl e, w1)
                                | Inr w2 \<Rightarrow>
                                    (Inr (files @
                                       [abspath (cwd w2)
                                          (path_join ''retrieved_documents''
                                             (py_str_int idx @ splitext_ext doc_filename))]),
                                     w2))))))"

fun retrieve_loop ::
  "platform \<Rightarrow> judge \<Rightarrow> string \<Rightarrow> (int \<Rightarrow> string option) \<Rightarrow> path \<Rightarrow> int list
     \<Rightarrow> string list \<Rightarrow> world \<Rightarrow> (py_exn + string list) \<times> world" where
  "retrieve_loop P model query filenames_mapping folder [] files w = (Inr files, w)"
| "retrieve_loop P model query filenames_mapping folder (idx # rest) files w =
     (case retrieve_one P model query filenames_mapping folder idx files w of
        (Inl e, w') \<Rightarrow> (Inl e, w')
      | (Inr files', w') \<Rightarrow> retrieve_loop P model query filenames_mapping folder rest files' w')"


definition dest_path_of :: "path \<Rightarrow> int \<Rightarrow> string \<Rightarrow> path" where
  "dest_path_of session_documents_folder idx doc_filename =
     path_join session_documents_folder (py_str_int idx @ splitext_ext doc_filename)"

text \<open>Everything inside the \<open>try\<close> of \<open>retrieve_documents\<close>.\<close>

definition retrieve_body ::
  "platform \<Rightarrow> world \<Rightarrow> faiss_index \<Rightarrow> encoder \<Rightarrow> string \<Rightarrow> (int \<Rightarrow> string option)
     \<Rightarrow> string \<Rightarrow> int \<Rightarrow> (py_exn + string list) \<times> world" where
  "retrieve_body P w faiss_index model query filenames_mapping model_name k =
     (case model [query] of
        Inl e \<Rightarrow> (Inl e, w)
      | Inr encoded \<Rightarrow>
          (case np_array encoded of
             Inl e \<Rightarrow> (Inl e, w)
           | Inr query_embedding \<Rightarrow>
               (case index_search faiss_index query_embedding k of
                  Inl e \<Rightarrow> (Inl e, w)
                | Inr (distances, indices) \<Rightarrow>
                    (let session_documents_folder = abspath (cwd w) ''retrieved_documents'' in
                     case os_makedirs w session_documents_folder of
                       Inl e \<Rightarrow> (Inl e, w)
                     | Inr w1 \<Rightarrow>
                         (case load_model P model_name of
                            Inl e \<Rightarrow> (Inl e, w1)
                          | Inr llm \<Rightarrow>
                              (case indices of
                                 [] \<Rightarrow> (Inl IndexError, w1)
                               | row # _ \<Rightarrow>
                                   retrieve_loop P llm query filenames_mapping
                                     session_documents_folder row [] w1))))))"

text \<open>\<open>retrieve_documents\<close>: the \<open>except Exception\<close> clause turns every exception of
  the body into the empty list; the file system is whatever the body left.\<close>

definition retrieve_documents ::
  "platform \<Rightarrow> world \<Rightarrow> faiss_index \<Rightarrow> encoder \<Rightarrow> string \<Rightarrow> (int \<Rightarrow> string option)
     \<Rightarrow> string \<Rightarrow> int \<Rightarrow> string list \<times> world" where
  "retrieve_documents P w faiss_index model query filenames_mapping model_name k =
     (case retrieve_body P w faiss_index model query filenames_mapping model_name k of
        (Inl e, w') \<Rightarrow> ([], w')
      | (Inr files, w') \<Rightarrow> (files, w'))"

section \<open>A small installation for concrete runs\<close>

text \<open>
  A stand-in platform: the detector always answers \<open>ascii\<close>, the codec table knows
  \<open>ascii\<close> only, the embedder maps a text to its length and the sum of its code points,
  and the judge answers \<open>Yes\<close>.
\<close>

definition stub_encoder :: encoder where
  "stub_encoder docs =
     Inr (map (\<lambda>doc. [of_nat (length doc), of_nat (sum_list (map py_ord doc))]) docs)"

definition stub_codec :: "string option \<Rightarrow> bytes \<Rightarrow> py_exn + string" where
  "stub_codec enc raw =
     (if enc = Some ''ascii''
      then (if list_all (\<lambda>c. py_ord c < 128) raw then Inr (universal_newlines raw)
            else Inl UnicodeDecodeError)
      else Inl LookupError)"

definition stub_platform :: platform where
  "stub_platform =
     \<lparr>detect = (\<lambda>raw. Some ''ascii''),
      codec = stub_codec,
      sentence_transformer = (\<lambda>name. Inr stub_encoder),
      load_model = (\<lambda>name. Inr (\<lambda>content. Inr ''Yes'')),
      repr_bytes = (\<lambda>b. ''b'' @ [CHR 0x27] @ b @ [CHR 0x27]),
      index_bytes = (\<lambda>index. ''faiss''),
      json_bytes = (\<lambda>obj. ''json'')\<rparr>"

text \<open>The same platform with a judge that answers \<open>no\<close>.\<close>

definition strict_platform :: platform where
  "strict_platform = stub_platform\<lparr>load_model := (\<lambda>name. Inr (\<lambda>content. Inr ''no''))\<rparr>"

text \<open>
  A file system with three documents, a document whose byte \<open>0xE9\<close> is not ascii, a
  subdirectory and a file without access among the uploaded documents, an output
  directory for the index, and one file left by an earlier retrieval.
\<close>

definition stub_world :: world where
  "stub_world =
     \<lparr>cwd = ''/srv'',
      entries =
        [([''srv''], Dir),
         ([''srv'', ''uploaded_documents''], Dir),
         ([''srv'', ''uploaded_documents'', ''a.txt''], File ''apple''),
         ([''srv'', ''uploaded_documents'', ''sub''], Dir),
         ([''srv'', ''uploaded_documents'', ''b.txt''], File ''banana''),
         ([''srv'', ''uploaded_documents'', ''locked.txt''], NoAccess),
         ([''srv'', ''uploaded_documents'', ''c.txt''], File (''caf'' @ [CHR 0xE9])),
         ([''srv'', ''out''], Dir),
         ([''srv'', ''retrieved_documents''], Dir),
         ([''srv'', ''retrieved_documents'', ''1.txt''], File ''stale'')]\<rparr>"


section \<open>Facts about the string methods\<close>

lemma py_ord_inj: "py_ord c = py_ord d \<longleftrightarrow> c = d"
  by (simp add: py_ord_def)

lemma py_ord_char_of: "n < 256 \<Longrightarrow> py_ord (char_of n) = n"
  by (simp add: py_ord_def of_char_of)

lemma py_ord_lower:
  "py_ord (py_lower_char c) =
     (if (65 \<le> py_ord c \<and> py_ord c \<le> 90)
         \<or> (192 \<le> py_ord c \<and> py_ord c \<le> 222 \<and> py_ord c \<noteq> 215)
      then py_ord c + 32 else py_ord c)"
  by (simp add: py_lower_char_def Let_def py_ord_char_of)

lemma lower_char_iff:
  assumes "py_ord d = k" "k \<le> 122" "97 \<le> k"
  shows "py_lower_char c = d \<longleftrightarrow> py_ord c = k \<or> py_ord c + 32 = k"
proof -
  define n where "n = py_ord c"
  have "py_lower_char c = d \<longleftrightarrow> py_ord (py_lower_char c) = k"
    unfolding assms(1)[symmetric] py_ord_inj ..
  also have "\<dots> \<longleftrightarrow> n = k \<or> n + 32 = k"
    using assms(2,3) unfolding py_ord_lower n_def[symmetric]
    by (simp split: if_splits) arith
  finally show ?thesis by (simp add: n_def)
qed

lemma lower_letter:
  assumes "py_ord d = k" "py_ord u = k - 32" "k \<le> 122" "97 \<le> k"
  shows "py_lower_char c = d \<longleftrightarrow> c = d \<or> c = u"
proof -
  have "py_lower_char c = d \<longleftrightarrow> py_ord c = k \<or> py_ord c + 32 = k"
    using assms by (intro lower_char_iff)
  also have "\<dots> \<longleftrightarrow> py_ord c = py_ord d \<or> py_ord c = py_ord u"
    unfolding assms(1,2) using assms(4) by arith
  finally show ?thesis unfolding py_ord_inj .
qed

lemma lower_y: "py_lower_char c = CHR ''y'' \<longleftrightarrow> c = CHR ''y'' \<or> c = CHR ''Y''"
  by (rule lower_letter[where k = 121]) (simp_all add: py_ord_def)

lemma lower_e: "py_lower_char c = CHR ''e'' \<longleftrightarrow> c = CHR ''e'' \<or> c = CHR ''E''"
  by (rule lower_letter[where k = 101]) (simp_all add: py_ord_def)

lemma lower_s: "py_lower_char c = CHR ''s'' \<longleftrightarrow> c = CHR ''s'' \<or> c = CHR ''S''"
  by (rule lower_letter[where k = 115]) (simp_all add: py_ord_def)

lemma py_lower_yes:
  "py_lower t = ''yes'' \<longleftrightarrow>
     (\<exists>y e s. t = [y, e, s] \<and> (y = CHR ''y'' \<or> y = CHR ''Y'')
        \<and> (e = CHR ''e'' \<or> e = CHR ''E'') \<and> (s = CHR ''s'' \<or> s = CHR ''S''))"
  (is "?L \<longleftrightarrow> ?R")
proof
  assume ?L
  then obtain y e s where t: "t = [y, e, s]" and l: "py_lower_char y = CHR ''y''"
    "py_lower_char e = CHR ''e''" "py_lower_char s = CHR ''s''"
    unfolding py_lower_def by (auto simp: map_eq_Cons_conv)
  from l show ?R
    unfolding lower_y lower_e lower_s using t by blast
next
  assume ?R
  then obtain y e s where t: "t = [y, e, s]" and l: "py_lower_char y = CHR ''y''"
    "py_lower_char e = CHR ''e''" "py_lower_char s = CHR ''s''"
    unfolding lower_y lower_e lower_s by blast
  show ?L
    unfolding py_lower_def t using l by simp
qed

lemma yes_not_space:
  "(y = CHR ''y'' \<or> y = CHR ''Y'') \<Longrightarrow> \<not> py_isspace y"
  "(s = CHR ''s'' \<or> s = CHR ''S'') \<Longrightarrow> \<not> py_isspace s"
  by (auto simp: py_isspace_def Let_def py_ord_def)

lemma py_strip_decompose:
  "\<exists>pre suf. t = pre @ py_strip t @ suf \<and> list_all py_isspace pre \<and> list_all py_isspace suf"
proof -
  let ?a = "dropWhile py_isspace t"
  have 1: "t = takeWhile py_isspace t @ ?a" by simp
  have 2: "rev ?a = takeWhile py_isspace (rev ?a) @ dropWhile py_isspace (rev ?a)" by simp
  have "?a = py_strip t @ rev (takeWhile py_isspace (rev ?a))"
    unfolding py_strip_def by (metis 2 rev_append rev_rev_ident)
  with 1 have "t = takeWhile py_isspace t @ py_strip t @ rev (takeWhile py_isspace (rev ?a))"
    by simp
  moreover have "list_all py_isspace (takeWhile py_isspace t)"
    by (simp add: list_all_iff) (meson set_takeWhileD)
  moreover have "list_all py_isspace (rev (takeWhile py_isspace (rev ?a)))"
    by (simp add: list_all_iff) (meson set_takeWhileD)
  ultimately show ?thesis by blast
qed

lemma py_strip_core:
  assumes "list_all py_isspace pre" "list_all py_isspace suf" "core \<noteq> []"
    "\<not> py_isspace (hd core)" "\<not> py_isspace (last core)"
  shows "py_strip (pre @ core @ suf) = core"
proof -
  have a: "dropWhile py_isspace (pre @ core @ suf) = core @ suf"
    using assms(1,3,4) by (cases core) (simp_all add: list_all_iff dropWhile_append)
  have b: "dropWhile py_isspace (rev suf @ rev core) = rev core"
    using assms(2,3,5)
    by (cases core rule: rev_cases) (simp_all add: list_all_iff dropWhile_append)
  show ?thesis unfolding py_strip_def a by (simp add: b)
qed

lemma accepted_reply_shape:
  "py_lower (py_strip reply) = ''yes'' \<longleftrightarrow>
     (\<exists>pre y e s suf. reply = pre @ [y, e, s] @ suf
        \<and> list_all py_isspace pre \<and> list_all py_isspace suf
        \<and> (y = CHR ''y'' \<or> y = CHR ''Y'') \<and> (e = CHR ''e'' \<or> e = CHR ''E'')
        \<and> (s = CHR ''s'' \<or> s = CHR ''S''))"
  (is "?L \<longleftrightarrow> ?R")
proof
  assume ?L
  then obtain y e s where c: "py_strip reply = [y, e, s]" 
     and l: "y = CHR ''y'' \<or> y = CHR ''Y''" "e = CHR ''e'' \<or> e = CHR ''E''" "s = CHR ''s'' \<or> s = CHR ''S''"
    unfolding py_lower_yes by blast
  obtain pre suf where "reply = pre @ py_strip reply @ suf" "list_all py_isspace pre" "list_all py_isspace suf"
    using py_strip_decompose by blast
  with c l show ?R by metis
next
  assume ?R
  then obtain pre y e s suf where t: "reply = pre @ [y, e, s] @ suf"
     and sp: "list_all py_isspace pre" "list_all py_isspace suf"
     and l: "y = CHR ''y'' \<or> y = CHR ''Y''" "e = CHR ''e'' \<or> e = CHR ''E''" "s = CHR ''s'' \<or> s = CHR ''S''"
    by blast
  have "py_strip reply = [y, e, s]"
    unfolding t using sp yes_not_space(1)[OF l(1)] yes_not_space(2)[OF l(3)]
    by (intro py_strip_core) simp_all
  with l show ?L unfolding py_lower_yes by blast
qed

section \<open>The relevance judge\<close>

text \<open>
  Claim C2 (relevance gating exactness). Whatever text the judge returns for the prompt,
  \<open>analyze_chunk_with_llm\<close> accepts the chunk exactly when that text, stripped of
  surrounding whitespace and lowercased, is the string \<open>yes\<close>, and hands the chunk back
  unchanged. The replies \<open>Yes\<close>, \<open> yes \<close> and \<open>YES\<close> are accepted; \<open>no\<close>, the empty
  reply and \<open>yes please\<close> are rejected.
\<close>

theorem relevance_gating_exact:
  assumes "model (relevance_prompt P chunk query) = Inr reply"
  shows "analyze_chunk_with_llm P model chunk query
           = Inr (py_lower (py_strip reply) = ''yes'', chunk)
       \<and> (reply = ''Yes'' \<or> reply = '' yes '' \<or> reply = ''YES''
            \<longrightarrow> analyze_chunk_with_llm P model chunk query = Inr (True, chunk))
       \<and> (reply = ''no'' \<or> reply = [] \<or> reply = ''yes please''
            \<longrightarrow> analyze_chunk_with_llm P model chunk query = Inr (False, chunk))"
proof -
  have r: "analyze_chunk_with_llm P model chunk query
             = Inr (py_lower (py_strip reply) = ''yes'', chunk)"
    using assms by (simp add: analyze_chunk_with_llm_def)
  have acc: "py_lower (py_strip ''Yes'') = ''yes''" "py_lower (py_strip '' yes '') = ''yes''"
    "py_lower (py_strip ''YES'') = ''yes''"
    by code_simp+
  have rej: "py_lower (py_strip ''no'') \<noteq> ''yes''" "py_lower (py_strip []) \<noteq> ''yes''"
    "py_lower (py_strip ''yes please'') \<noteq> ''yes''"
    by code_simp+
  show ?thesis unfolding r using acc rej by auto
qed

theorem relevance_gating_exact_witness:
  "analyze_chunk_with_llm stub_platform (\<lambda>content. Inr '' yes '') ''apple'' ''fruit?''
     = Inr (True, ''apple'')"
  using relevance_gating_exact[where model = "\<lambda>content. Inr '' yes ''" and P = stub_platform
      and chunk = "''apple''" and query = "''fruit?''" and reply = "'' yes ''"]
  by blast

section \<open>Reading with the encoding fallback\<close>

text \<open>
  Claim C6 (encoding-fallback safety). When the bytes of a readable file do not decode
  under the detected encoding (a \<open>UnicodeDecodeError\<close>), \<open>read_file_with_fallback\<close>
  returns the latin1 reading of the same bytes and raises nothing; when the file cannot be
  opened at all (missing, a directory, no permission), that error reaches the caller.
\<close>

theorem encoding_fallback_safe:
  "(read_binary P w file_path = Inr raw
      \<and> decode_text P (detect P raw) raw = Inl UnicodeDecodeError
      \<longrightarrow> read_file_with_fallback P w file_path = Inr (universal_newlines raw))
   \<and> (read_binary P w file_path = Inl e
      \<longrightarrow> read_file_with_fallback P w file_path = Inl e)"
  by (simp add: read_file_with_fallback_def read_text_def decode_text_def)

theorem encoding_fallback_safe_witness:
  "read_binary stub_platform stub_world ''uploaded_documents/c.txt'' = Inr (''caf'' @ [CHR 0xE9])
   \<and> decode_text stub_platform (detect stub_platform (''caf'' @ [CHR 0xE9])) (''caf'' @ [CHR 0xE9])
       = Inl UnicodeDecodeError
   \<and> read_file_with_fallback stub_platform stub_world ''uploaded_documents/c.txt''
       = Inr (''caf'' @ [CHR 0xE9])
   \<and> read_binary stub_platform stub_world ''uploaded_documents/locked.txt'' = Inl PermissionError
   \<and> read_file_with_fallback stub_platform stub_world ''uploaded_documents/locked.txt''
       = Inl PermissionError
   \<and> read_binary stub_platform stub_world ''uploaded_documents/gone.txt'' = Inl FileNotFoundError
   \<and> read_file_with_fallback stub_platform stub_world ''uploaded_documents/gone.txt''
       = Inl FileNotFoundError"
proof -
  have a: "read_binary stub_platform stub_world ''uploaded_documents/c.txt''
             = Inr (''caf'' @ [CHR 0xE9])"
    by code_simp
  have b: "decode_text stub_platform (detect stub_platform (''caf'' @ [CHR 0xE9]))
             (''caf'' @ [CHR 0xE9]) = Inl UnicodeDecodeError"
    by code_simp
  have c: "read_binary stub_platform stub_world ''uploaded_documents/locked.txt''
             = Inl PermissionError"
    by code_simp
  have d: "read_binary stub_platform stub_world ''uploaded_documents/gone.txt''
             = Inl FileNotFoundError"
    by code_simp
  have u: "universal_newlines (''caf'' @ [CHR 0xE9]) = ''caf'' @ [CHR 0xE9]"
    by code_simp
  from encoding_fallback_safe[of stub_platform stub_world "''uploaded_documents/c.txt''"
        "''caf'' @ [CHR 0xE9]"] a b u
  have 1: "read_file_with_fallback stub_platform stub_world ''uploaded_documents/c.txt''
       = Inr (''caf'' @ [CHR 0xE9])" by metis
  from encoding_fallback_safe[of stub_platform stub_world "''uploaded_documents/locked.txt''"
        _ PermissionError] c
  have 2: "read_file_with_fallback stub_platform stub_world ''uploaded_documents/locked.txt''
       = Inl PermissionError" by metis
  from encoding_fallback_safe[of stub_platform stub_world "''uploaded_documents/gone.txt''"
        _ FileNotFoundError] d
  have 3: "read_file_with_fallback stub_platform stub_world ''uploaded_documents/gone.txt''
       = Inl FileNotFoundError" by metis
  from a b c d 1 2 3 show ?thesis by blast
qed

section \<open>Loading the folder\<close>

lemma load_documents_filter:
  "load_documents P w folder_path names docs filenames =
     (docs @ filtered_docs P w folder_path names,
      filenames @ filtered_filenames P w folder_path names)"
proof (induction names arbitrary: docs filenames)
  case Nil
  show ?case by (simp add: filtered_docs_def filtered_filenames_def)
next
  case (Cons n names)
  show ?case
  proof (cases "read_file_with_fallback P w (path_join folder_path n)")
    case (Inl e)
    then show ?thesis
      using Cons.IH[of docs filenames]
      by (simp add: filtered_docs_def filtered_filenames_def)
  next
    case (Inr content)
    then show ?thesis
      using Cons.IH[of "docs @ [content]" "filenames @ [n]"]
      by (simp add: filtered_docs_def filtered_filenames_def)
  qed
qed

lemma update_fresh:
  "k \<notin> fst ` set al \<Longrightarrow> AList.update k v al = al @ [(k, v)]"
  by (induction al) auto

lemma fold_update_enumerate:
  "\<forall>p \<in> set acc. fst p < k \<Longrightarrow>
   fold (\<lambda>(idx, doc_file) m. AList.update idx doc_file m) (enumerate k xs) acc
     = acc @ enumerate k xs"
proof (induction xs arbitrary: acc k)
  case Nil
  show ?case by simp
next
  case (Cons x xs)
  have fresh: "k \<notin> fst ` set acc" using Cons.prems by auto
  have "\<forall>p \<in> set (acc @ [(k, x)]). fst p < Suc k" using Cons.prems by auto
  from Cons.IH[OF this] show ?case
    by (simp add: update_fresh[OF fresh])
qed

lemma create_filenames_mapping_enumerate:
  "create_filenames_mapping filenames = enumerate 0 filenames"
  unfolding create_filenames_mapping_def
  using fold_update_enumerate[of "[]" 0 filenames] by simp

lemma set_snd_enumerate: "snd ` set (enumerate k xs) = set xs"
  by (metis map_snd_enumerate set_map)

text \<open>
  Claim C8 (per-file fail-soft in the indexer). The loading loop keeps exactly the names
  of the listing whose read succeeds, in order, with their texts; \<open>index_documents\<close>
  goes on to embed and index those. A name whose read raises is in neither the list of
  filenames nor the mapping built from it, and every readable name of the listing is kept
  whatever fails before or after it.
\<close>

theorem per_file_fail_soft:
  "load_documents P w folder_path names [] [] =
     (filtered_docs P w folder_path names, filtered_filenames P w folder_path names)
   \<and> length (filtered_docs P w folder_path names)
       = length (filtered_filenames P w folder_path names)
   \<and> (os_listdir w folder_path = Inr names \<longrightarrow>
        index_documents P w folder_path index_path indexer_model =
          embed_and_index P w (filtered_docs P w folder_path names)
            (filtered_filenames P w folder_path names) index_path indexer_model)
   \<and> (read_file_with_fallback P w (path_join folder_path n) = Inl e \<longrightarrow>
        n \<notin> set (filtered_filenames P w folder_path names)
        \<and> n \<notin> snd ` set (create_filenames_mapping (filtered_filenames P w folder_path names)))
   \<and> (n \<in> set names \<and> read_file_with_fallback P w (path_join folder_path n) = Inr c \<longrightarrow>
        n \<in> set (filtered_filenames P w folder_path names)
        \<and> c \<in> set (filtered_docs P w folder_path names))"
proof -
  have 1: "load_documents P w folder_path names [] [] =
     (filtered_docs P w folder_path names, filtered_filenames P w folder_path names)"
    by (simp add: load_documents_filter)
  have 2: "length (filtered_docs P w folder_path names)
       = length (filtered_filenames P w folder_path names)"
    by (simp add: filtered_docs_def)
  have 3: "os_listdir w folder_path = Inr names \<longrightarrow>
        index_documents P w folder_path index_path indexer_model =
          embed_and_index P w (filtered_docs P w folder_path names)
            (filtered_filenames P w folder_path names) index_path indexer_model"
    by (simp add: index_documents_def 1)
  have 4: "read_file_with_fallback P w (path_join folder_path n) = Inl e \<longrightarrow>
        n \<notin> set (filtered_filenames P w folder_path names)
        \<and> n \<notin> snd ` set (create_filenames_mapping (filtered_filenames P w folder_path names))"
    by (simp add: create_filenames_mapping_enumerate set_snd_enumerate filtered_filenames_def)
  have 5: "n \<in> set names \<and> read_file_with_fallback P w (path_join folder_path n) = Inr c \<longrightarrow>
        n \<in> set (filtered_filenames P w folder_path names)
        \<and> c \<in> set (filtered_docs P w folder_path names)"
    by (force simp: filtered_docs_def filtered_filenames_def)
  from 1 2 3 4 5 show ?thesis by blast
qed

theorem per_file_fail_soft_witness:
  "os_listdir stub_world ''uploaded_documents''
     = Inr [''a.txt'', ''sub'', ''b.txt'', ''locked.txt'', ''c.txt'']
   \<and> read_file_with_fallback stub_platform stub_world (path_join ''uploaded_documents'' ''sub'')
       = Inl IsADirectoryError
   \<and> ''sub'' \<notin> set (filtered_filenames stub_platform stub_world ''uploaded_documents''
                      [''a.txt'', ''sub'', ''b.txt'', ''locked.txt'', ''c.txt''])
   \<and> index_documents stub_platform stub_world ''uploaded_documents'' None ''m'' =
       embed_and_index stub_platform stub_world
         (filtered_docs stub_platform stub_world ''uploaded_documents''
            [''a.txt'', ''sub'', ''b.txt'', ''locked.txt'', ''c.txt''])
         (filtered_filenames stub_platform stub_world ''uploaded_documents''
            [''a.txt'', ''sub'', ''b.txt'', ''locked.txt'', ''c.txt'']) None ''m''
   \<and> filtered_filenames stub_platform stub_world ''uploaded_documents''
         [''a.txt'', ''sub'', ''b.txt'', ''locked.txt'', ''c.txt'']
       = [''a.txt'', ''b.txt'', ''c.txt'']"
proof -
  have a: "os_listdir stub_world ''uploaded_documents''
     = Inr [''a.txt'', ''sub'', ''b.txt'', ''locked.txt'', ''c.txt'']"
    by code_simp
  have b: "read_file_with_fallback stub_platform stub_world
             (path_join ''uploaded_documents'' ''sub'') = Inl IsADirectoryError"
    by code_simp
  have c: "filtered_filenames stub_platform stub_world ''uploaded_documents''
         [''a.txt'', ''sub'', ''b.txt'', ''locked.txt'', ''c.txt'']
       = [''a.txt'', ''b.txt'', ''c.txt'']"
    by code_simp
  from a b c
    per_file_fail_soft[of stub_platform stub_world "''uploaded_documents''"
      "[''a.txt'', ''sub'', ''b.txt'', ''locked.txt'', ''c.txt'']" None "''m''" "''sub''"
      IsADirectoryError]
  show ?thesis by blast
qed

section \<open>Facts about the similarity index\<close>






section \<open>Facts about saving\<close>

lemma locate_cwd: "cwd w' = cwd w \<Longrightarrow> locate w' p = locate w p"
  by (simp add: locate_def)

lemma open_write_success:
  assumes "open_write w p content = Inr w'"
  shows "cwd w' = cwd w" "locate w p \<noteq> []" "lookup w' (locate w p) = Some content"
    "lookup w (butlast (locate w p)) = Some Dir"
proof -
  from assms have ne: "locate w p \<noteq> []"
    by (auto simp: open_write_def Let_def split: if_splits)
  from assms have w': "w' = w\<lparr>entries := AList.update (locate w p) content (entries w)\<rparr>"
    by (auto simp: open_write_def Let_def split: if_splits option.splits node.splits)
  show "cwd w' = cwd w" by (simp add: w')
  show "locate w p \<noteq> []" by (rule ne)
  show "lookup w' (locate w p) = Some content"
    using ne by (simp add: w' lookup_def update_conv')
  show "lookup w (butlast (locate w p)) = Some Dir"
    using assms by (auto simp: open_write_def Let_def split: if_splits option.splits node.splits)
qed

lemma write_index_success:
  assumes "write_index w index p = Inr w'"
  shows "cwd w' = cwd w" "lookup w' (locate w p) = Some (FaissFile index)"
proof -
  from assms have "open_write w p (FaissFile index) = Inr w'"
    by (simp add: write_index_def split: sum.splits)
  from open_write_success[OF this] show "cwd w' = cwd w"
    "lookup w' (locate w p) = Some (FaissFile index)" by simp_all
qed

lemma save_index_success:
  assumes "save_index w index filenames index_path = (Inr index', w')"
  shows "index' = index"
    "lookup w' (locate w (mapping_path w index_path))
       = Some (json_dump (create_filenames_mapping filenames))"
proof -
  obtain w1 where w1: "(if os_path_isdir w index_path
            then write_index w index (path_join index_path ''index.faiss'')
            else Inr w) = Inr w1"
    using assms by (auto simp: save_index_def split: sum.splits)
  have c: "cwd w1 = cwd w"
    using w1 write_index_success(1) by (auto split: if_splits)
  obtain w2 where w2: "open_write w1 (mapping_path w index_path)
          (json_dump (create_filenames_mapping filenames)) = Inr w2"
    and r: "(Inr index', w') = (Inr index, w2)"
    using assms w1 c by (auto simp: save_index_def mapping_path_def Let_def split: sum.splits)
  from r show "index' = index" by simp
  from r have "w' = w2" by simp
  with open_write_success(3)[OF w2] locate_cwd[OF c]
  show "lookup w' (locate w (mapping_path w index_path))
       = Some (json_dump (create_filenames_mapping filenames))"
    by simp
qed

lemma embed_and_index_success:
  assumes "embed_and_index P w docs filenames index_path indexer_model = (Inr index, w')"
    and "sentence_transformer P indexer_model = Inr model"
    and "model docs = Inr embs"
  shows "embs \<noteq> []" "list_all (\<lambda>x. length x = dim index) embs" "vectors index = embs"
    "index_path = Some ip \<Longrightarrow> ip \<noteq> [] \<Longrightarrow> save_index w index filenames ip = (Inr index, w')"
proof -
  from assms have np: "np_array embs = Inr embs"
    by (auto simp: embed_and_index_def np_array_def split: sum.splits list.splits if_splits)
  from assms np obtain d where d: "shape1 embs = Inr d"
    by (auto simp: embed_and_index_def split: sum.splits)
  then show ne: "embs \<noteq> []" by (auto simp: shape1_def)
  from assms np d obtain ix where ix: "index_add (IndexFlatL2 d) embs = Inr ix"
    by (auto simp: embed_and_index_def split: sum.splits)
  then have ixv: "ix = \<lparr>dim = d, vectors = embs\<rparr>" "list_all (\<lambda>x. length x = d) embs"
    by (auto simp: index_add_def IndexFlatL2_def split: if_splits)
  have tail: "(case index_path of None \<Rightarrow> (Inr ix, w)
       | Some ip \<Rightarrow> if ip = [] then (Inr ix, w) else save_index w ix filenames ip) = (Inr index, w')"
    using assms np d ix by (simp add: embed_and_index_def)
  have eq: "index = ix"
    using tail save_index_success(1)
    by (cases index_path) (auto split: if_splits)
  show "list_all (\<lambda>x. length x = dim index) embs" using ixv eq by simp
  show "vectors index = embs" using ixv eq by simp
  show "index_path = Some ip \<Longrightarrow> ip \<noteq> [] \<Longrightarrow> save_index w index filenames ip = (Inr index, w')"
    using tail eq by simp
qed

lemma map_enumerate_nth:
  "map g (enumerate 0 xs) = map (\<lambda>i. g (i, xs ! i)) [0..<length xs]"
  by (rule nth_equalityI) (simp_all add: nth_enumerate_eq)

lemma fst_set_enumerate: "fst ` set (enumerate 0 xs) = {0..<length xs}"
proof -
  have "fst ` set (enumerate 0 xs) = set (map fst (enumerate 0 xs))" by (simp only: set_map)
  also have "\<dots> = {0..<length xs}" by (simp only: map_fst_enumerate) simp
  finally show ?thesis .
qed


section \<open>The mapping and the index after a build\<close>

text \<open>
  Claim C5 (mapping/index key-set equality). After a build that returns, with an embedder
  that gives one vector per document, \<open>N\<close> being the number of documents read: the keys
  of the mapping made by \<open>create_filenames_mapping\<close> are \<open>{0..<N}\<close>, the index holds
  \<open>N\<close> vectors, so the keys are exactly the ordinals of the index, and the JSON object
  written beside the index has the decimal forms of \<open>0..<N\<close> as keys, in order.
\<close>

theorem mapping_index_key_set:
  assumes "os_listdir w folder_path = Inr names"
    and "index_documents P w folder_path (Some index_path) indexer_model = (Inr index, w')"
    and "index_path \<noteq> []"
    and "sentence_transformer P indexer_model = Inr model"
    and "model (filtered_docs P w folder_path names) = Inr embs"
    and "length embs = length (filtered_docs P w folder_path names)"
  shows "fst ` set (create_filenames_mapping (filtered_filenames P w folder_path names))
           = {0..<length (filtered_filenames P w folder_path names)}
       \<and> ntotal index = length (filtered_filenames P w folder_path names)
       \<and> fst ` set (create_filenames_mapping (filtered_filenames P w folder_path names))
           = {0..<ntotal index}
       \<and> lookup w' (locate w (mapping_path w index_path))
           = Some (JsonFile (map (\<lambda>i. (py_str_int (int i),
                                        filtered_filenames P w folder_path names ! i))
                               [0..<ntotal index]))"
proof -
  let ?fs = "filtered_filenames P w folder_path names"
  let ?ds = "filtered_docs P w folder_path names"
  have run: "embed_and_index P w ?ds ?fs (Some index_path) indexer_model = (Inr index, w')"
    using assms(1,2) by (simp add: index_documents_def load_documents_filter)
  have v: "vectors index = embs"
    by (rule embed_and_index_success(3)[OF run assms(4,5)])
  have n: "ntotal index = length ?fs"
    using v assms(6) by (simp add: ntotal_def filtered_docs_def)
  have keys: "fst ` set (create_filenames_mapping ?fs) = {0..<length ?fs}"
    by (simp only: create_filenames_mapping_enumerate fst_set_enumerate)
  have "save_index w index ?fs index_path = (Inr index, w')"
    by (rule embed_and_index_success(4)[OF run assms(4,5) refl assms(3)])
  from save_index_success(2)[OF this]
  have "lookup w' (locate w (mapping_path w index_path))
          = Some (json_dump (enumerate 0 ?fs))"
    by (simp only: create_filenames_mapping_enumerate)
  also have "json_dump (enumerate 0 ?fs)
          = JsonFile (map (\<lambda>i. (py_str_int (int i), ?fs ! i)) [0..<ntotal index])"
    unfolding json_dump_def n by (simp add: map_enumerate_nth)
  finally show ?thesis using keys n by simp
qed

theorem mapping_index_key_set_witness:
  "os_listdir stub_world ''uploaded_documents''
     = Inr [''a.txt'', ''sub'', ''b.txt'', ''locked.txt'', ''c.txt'']
   \<and> fst (index_documents stub_platform stub_world ''uploaded_documents'' (Some ''out'') ''m'')
       = Inr \<lparr>dim = 2, vectors = [[5, 530], [6, 609], [4, 531]]\<rparr>
   \<and> fst ` set (create_filenames_mapping
         (filtered_filenames stub_platform stub_world ''uploaded_documents''
            [''a.txt'', ''sub'', ''b.txt'', ''locked.txt'', ''c.txt''])) = {0..<3}
   \<and> ntotal \<lparr>dim = 2, vectors = [[5, 530], [6, 609], [4, 531]]\<rparr> = 3"
proof -
  let ?names = "[''a.txt'', ''sub'', ''b.txt'', ''locked.txt'', ''c.txt'']"
  let ?ix = "\<lparr>dim = 2, vectors = [[5, 530], [6, 609], [4, 531]]\<rparr>"
  obtain w' where w': "w' = snd (index_documents stub_platform stub_world
      ''uploaded_documents'' (Some ''out'') ''m'')" by simp
  have a: "os_listdir stub_world ''uploaded_documents'' = Inr ?names"
    by code_simp
  have b: "fst (index_documents stub_platform stub_world ''uploaded_documents''
      (Some ''out'') ''m'') = Inr ?ix"
    by code_simp
  have b': "index_documents stub_platform stub_world ''uploaded_documents''
      (Some ''out'') ''m'' = (Inr ?ix, w')"
    using b w' by (metis prod.collapse)
  have c: "''out'' \<noteq> []" by simp
  have d: "sentence_transformer stub_platform ''m'' = Inr stub_encoder"
    by (simp add: stub_platform_def)
  have e: "stub_encoder (filtered_docs stub_platform stub_world ''uploaded_documents'' ?names)
     = Inr [[5, 530], [6, 609], [4, 531]]"
    by code_simp
  have f: "length [[5, 530], [6, 609], [4, 531 :: rat]]
     = length (filtered_docs stub_platform stub_world ''uploaded_documents'' ?names)"
    by code_simp
  have g: "length (filtered_filenames stub_platform stub_world ''uploaded_documents'' ?names) = 3"
    by code_simp
  from mapping_index_key_set[OF a b' c d e f] a b g show ?thesis
    by simp
qed





section \<open>Saving under a path that names a file\<close>

text \<open>
  Claim C3 (index persistence) at an \<open>index_path\<close> that includes the file name, as the
  docstring of \<open>index_documents\<close> describes it: the index is written only under the test
  \<open>os.path.isdir(index_path)\<close>, the mapping is opened inside \<open>index_path\<close> as if it were
  a directory, and the call raises with nothing saved.
\<close>

theorem index_path_with_filename_not_saved:
  "index_documents stub_platform stub_world ''uploaded_documents'' (Some ''out/index.faiss'') ''m''
     = (Inl FileNotFoundError, stub_world)
   \<and> \<not> os_path_exists stub_world ''out/index.faiss''"
proof -
  have a: "index_documents stub_platform stub_world ''uploaded_documents''
       (Some ''out/index.faiss'') ''m'' = (Inl FileNotFoundError, stub_world)"
    by code_simp
  have b: "\<not> os_path_exists stub_world ''out/index.faiss''"
    by code_simp
  from a b show ?thesis by simp
qed

section \<open>Facts about the retrieval loop\<close>



lemma retrieve_loop_append:
  "retrieve_loop P llm query filenames_mapping folder (xs @ ys) files w =
     (case retrieve_loop P llm query filenames_mapping folder xs files w of
        (Inl e, w') \<Rightarrow> (Inl e, w')
      | (Inr files', w') \<Rightarrow> retrieve_loop P llm query filenames_mapping folder ys files' w')"
proof (induction xs arbitrary: files w)
  case Nil
  show ?case by simp
next
  case (Cons x xs)
  show ?case
  proof (cases "retrieve_one P llm query filenames_mapping folder x files w")
    case (Pair r w')
    then show ?thesis using Cons.IH by (cases r) simp_all
  qed
qed

lemma index_search_rows:
  "index_search index qe k = Inr (D, I) \<Longrightarrow>
   qe \<noteq> [] \<and> 0 < k \<and> I = map (\<lambda>q. snd (knn index q (nat k))) qe"
  by (auto simp: index_search_def split: if_splits)


lemma os_remove_success:
  assumes "node_at w p = Some n" "n \<noteq> Dir"
  shows "os_remove w p = Inr (w\<lparr>entries := AList.delete (locate w p) (entries w)\<rparr>)"
    "\<not> os_path_exists (w\<lparr>entries := AList.delete (locate w p) (entries w)\<rparr>) p"
proof -
  show "os_remove w p = Inr (w\<lparr>entries := AList.delete (locate w p) (entries w)\<rparr>)"
    using assms by (cases n) (simp_all add: os_remove_def)
  have p: "p \<noteq> []" using assms(1) by (auto simp: node_at_def split: if_splits)
  have l: "locate w p \<noteq> []"
    using assms p by (auto simp: node_at_def lookup_def split: if_splits)
  show "\<not> os_path_exists (w\<lparr>entries := AList.delete (locate w p) (entries w)\<rparr>) p"
    using p l by (simp add: os_path_exists_def node_at_def lookup_def locate_def delete_conv')
qed

lemma os_remove_frame:
  assumes "os_remove w p = Inr w'"
  shows "cwd w' = cwd w" "cs \<noteq> locate w p \<Longrightarrow> lookup w' cs = lookup w cs"
proof -
  from assms have w': "w' = w\<lparr>entries := AList.delete (locate w p) (entries w)\<rparr>"
    by (auto simp: os_remove_def split: option.splits node.splits)
  show "cwd w' = cwd w" by (simp add: w')
  show "cs \<noteq> locate w p \<Longrightarrow> lookup w' cs = lookup w cs"
    by (simp add: w' lookup_def delete_conv')
qed

lemma retrieve_one_raise_frame:
  assumes "retrieve_one P llm query filenames_mapping folder idx files w = (Inl e, w')"
  shows "\<forall>cs. lookup w' cs \<noteq> lookup w cs \<longrightarrow>
           (\<exists>f. filenames_mapping idx = Some f \<and> cs = locate w (dest_path_of folder idx f))"
proof (cases "filenames_mapping idx")
  case None
  with assms show ?thesis by (simp add: retrieve_one_def)
next
  case (Some f)
  let ?dest = "dest_path_of folder idx f"
  show ?thesis
  proof (cases "os_path_exists w ?dest")
    case False
    with assms Some have "w' = w"
      by (auto simp: retrieve_one_def Let_def dest_path_of_def
               split: if_splits sum.splits prod.splits)
    then show ?thesis by simp
  next
    case True
    show ?thesis
    proof (cases "os_remove w ?dest")
      case (Inl e')
      with assms Some True have "w' = w"
        by (auto simp: retrieve_one_def Let_def dest_path_of_def
               split: if_splits sum.splits prod.splits)
      then show ?thesis by simp
    next
      case (Inr w1)
      with assms Some True have "w' = w \<or> w' = w1"
        by (auto simp: retrieve_one_def Let_def dest_path_of_def
               split: if_splits sum.splits prod.splits)
      with os_remove_frame(2)[OF Inr] Some show ?thesis by auto
    qed
  qed
qed

section \<open>Retrieval as a whole\<close>





section \<open>What a retrieval leaves on disk\<close>

text \<open>
  Claim C9 (the destination is cleared first). For an ordinal that resolves, a file that
  exists at the destination \<open>{ordinal}{extension}\<close> is removed before the document is read
  and the judge is asked: the judge's verdict is formed in the file system without that
  file. When the judge rejects, the iteration ends there, the old file gone and nothing
  written in its place; when the judge raises, the file is gone as well.
\<close>

theorem destination_removed_before_judging:
  assumes "filenames_mapping idx = Some doc_filename"
    and "doc_filename \<noteq> []"
    and "os_path_exists w (abspath (cwd w) (path_join ''uploaded_documents'' doc_filename))"
    and "node_at w (dest_path_of folder idx doc_filename) = Some n"
    and "n \<noteq> Dir"
    and "w1 = w\<lparr>entries := AList.delete (locate w (dest_path_of folder idx doc_filename))
                              (entries w)\<rparr>"
    and "doc_path = abspath (cwd w) (path_join ''uploaded_documents'' doc_filename)"
  shows "os_remove w (dest_path_of folder idx doc_filename) = Inr w1
       \<and> \<not> os_path_exists w1 (dest_path_of folder idx doc_filename)
       \<and> (read_binary P w1 doc_path = Inr content
            \<and> llm (relevance_prompt P content query) = Inr reply
            \<and> py_lower (py_strip reply) \<noteq> ''yes''
          \<longrightarrow> retrieve_one P llm query filenames_mapping folder idx files w = (Inr files, w1)
              \<and> retrieve_loop P llm query filenames_mapping folder (idx # rest) files w
                  = retrieve_loop P llm query filenames_mapping folder rest files w1)
       \<and> (read_binary P w1 doc_path = Inr content
            \<and> llm (relevance_prompt P content query) = Inl e
          \<longrightarrow> retrieve_one P llm query filenames_mapping folder idx files w = (Inl e, w1))"
proof -
  let ?dest = "dest_path_of folder idx doc_filename"
  have rm: "os_remove w ?dest = Inr w1"
    using os_remove_success(1)[OF assms(4,5)] assms(6) by simp
  have gone: "\<not> os_path_exists w1 ?dest"
    using os_remove_success(2)[OF assms(4,5)] assms(6) by simp
  have ex: "os_path_exists w ?dest"
    using assms(4) by (simp add: os_path_exists_def)
  have step: "retrieve_one P llm query filenames_mapping folder idx files w =
      (case read_binary P w1 doc_path of
         Inl e \<Rightarrow> (Inl e, w1)
       | Inr content \<Rightarrow>
           (case analyze_chunk_with_llm P llm content query of
              Inl e \<Rightarrow> (Inl e, w1)
            | Inr (is_relevant, useful_chunk) \<Rightarrow>
                if \<not> is_relevant then (Inr files, w1)
                else
                  (case open_write w1 ?dest (File useful_chunk) of
                     Inl e \<Rightarrow> (Inl e, w1)
                   | Inr w2 \<Rightarrow>
                       (Inr (files @
                          [abspath (cwd w2)
                             (path_join ''retrieved_documents''
                                (py_str_int idx @ splitext_ext doc_filename))]),
                        w2))))"
    using assms(1,2,3,7) ex rm unfolding dest_path_of_def
    by (simp add: retrieve_one_def Let_def)
  have rej: "retrieve_one P llm query filenames_mapping folder idx files w = (Inr files, w1)
              \<and> retrieve_loop P llm query filenames_mapping folder (idx # rest) files w
                  = retrieve_loop P llm query filenames_mapping folder rest files w1"
    if "read_binary P w1 doc_path = Inr content"
      "llm (relevance_prompt P content query) = Inr reply"
      "py_lower (py_strip reply) \<noteq> ''yes''"
  proof -
    have "retrieve_one P llm query filenames_mapping folder idx files w = (Inr files, w1)"
      unfolding step using that by (simp add: analyze_chunk_with_llm_def)
    then show ?thesis by simp
  qed
  have rais: "retrieve_one P llm query filenames_mapping folder idx files w = (Inl e, w1)"
    if "read_binary P w1 doc_path = Inr content"
      "llm (relevance_prompt P content query) = Inl e"
    unfolding step using that by (simp add: analyze_chunk_with_llm_def)
  from rm gone rej rais show ?thesis by blast
qed

theorem destination_removed_before_judging_witness:
  "node_at stub_world (dest_path_of ''/srv/retrieved_documents'' 1 ''b.txt'')
     = Some (File ''stale'')
   \<and> \<not> os_path_exists
         (stub_world\<lparr>entries := AList.delete [''srv'', ''retrieved_documents'', ''1.txt'']
                                   (entries stub_world)\<rparr>)
         (dest_path_of ''/srv/retrieved_documents'' 1 ''b.txt'')
   \<and> retrieve_one strict_platform (\<lambda>content. Inr ''no'') ''fruit?'' (map_of [(1, ''b.txt'')])
        ''/srv/retrieved_documents'' 1 [] stub_world
       = (Inr [], stub_world\<lparr>entries := AList.delete [''srv'', ''retrieved_documents'', ''1.txt'']
                                   (entries stub_world)\<rparr>)"
proof -
  let ?w1 = "stub_world\<lparr>entries := AList.delete [''srv'', ''retrieved_documents'', ''1.txt'']
                                   (entries stub_world)\<rparr>"
  have a: "map_of [(1, ''b.txt'')] (1::int) = Some ''b.txt''" by simp
  have b: "''b.txt'' \<noteq> []" by simp
  have c: "os_path_exists stub_world
             (abspath (cwd stub_world) (path_join ''uploaded_documents'' ''b.txt''))"
    by code_simp
  have d: "node_at stub_world (dest_path_of ''/srv/retrieved_documents'' 1 ''b.txt'')
             = Some (File ''stale'')"
    by code_simp
  have e: "File ''stale'' \<noteq> Dir" by simp
  have f: "?w1 = stub_world\<lparr>entries :=
             AList.delete (locate stub_world (dest_path_of ''/srv/retrieved_documents'' 1 ''b.txt''))
               (entries stub_world)\<rparr>"
    by code_simp
  have g: "read_binary strict_platform ?w1
             (abspath (cwd stub_world) (path_join ''uploaded_documents'' ''b.txt''))
           = Inr ''banana''"
    by code_simp
  have h: "py_lower (py_strip ''no'') \<noteq> ''yes''" by code_simp
  note t = destination_removed_before_judging[where filenames_mapping = "map_of [(1, ''b.txt'')]"
      and idx = 1 and doc_filename = "''b.txt''" and w = stub_world
      and folder = "''/srv/retrieved_documents''" and n = "File ''stale''" and ?w1.0 = ?w1
      and doc_path = "abspath (cwd stub_world) (path_join ''uploaded_documents'' ''b.txt'')"
      and P = strict_platform and content = "''banana''" and llm = "\<lambda>content. Inr ''no''"
      and reply = "''no''" and query = "''fruit?''" and files = "[]"]
  from t[OF a b c d e f refl] g h d
  show ?thesis by simp
qed

text \<open>
  Claim C10 (no roll-back on error). When the loop has worked through some ordinals and
  the next one raises, \<open>retrieve_documents\<close> returns the empty list together with the
  file system of that moment: every path is as the earlier iterations left it, except
  possibly the destination of the failing ordinal, which may already have been removed.
\<close>

theorem non_atomic_on_error:
  assumes "model [query] = Inr enc"
    and "np_array enc = Inr qe"
    and "index_search faiss_index qe k = Inr (D, I)"
    and "hd I = pre @ idx # post"
    and "session = abspath (cwd w) ''retrieved_documents''"
    and "os_makedirs w session = Inr w1"
    and "load_model P model_name = Inr llm"
    and "retrieve_loop P llm query filenames_mapping session pre [] w1 = (Inr files1, w2)"
    and "retrieve_one P llm query filenames_mapping session idx files1 w2 = (Inl e, w3)"
  shows "retrieve_documents P w faiss_index model query filenames_mapping model_name k
           = ([], w3)
       \<and> (\<forall>cs. lookup w3 cs \<noteq> lookup w2 cs \<longrightarrow>
             (\<exists>f. filenames_mapping idx = Some f
                  \<and> cs = locate w2 (dest_path_of session idx f)))"
proof -
  from index_search_rows[OF assms(3)] obtain row rows where I: "I = row # rows"
    by (cases qe) auto
  with assms(4) have row: "row = pre @ idx # post" by simp
  have "retrieve_loop P llm query filenames_mapping session row [] w1 = (Inl e, w3)"
    unfolding row retrieve_loop_append using assms(8,9) by simp
  then have "retrieve_body P w faiss_index model query filenames_mapping model_name k
               = (Inl e, w3)"
    using assms(1,2,3,5,6,7) I by (simp add: retrieve_body_def)
  then have r: "retrieve_documents P w faiss_index model query filenames_mapping model_name k
                  = ([], w3)"
    by (simp add: retrieve_documents_def)
  from r retrieve_one_raise_frame[OF assms(9)] show ?thesis by blast
qed

theorem non_atomic_on_error_witness:
  "retrieve_documents stub_platform stub_world \<lparr>dim = 2, vectors = [[5, 530], [6, 609]]\<rparr>
     stub_encoder ''banana'' (map_of [(0, ''sub''), (1, ''b.txt'')]) ''gemini'' 3
     = ([], stub_world\<lparr>entries :=
              AList.update [''srv'', ''retrieved_documents'', ''1.txt''] (File ''banana'')
                (AList.delete [''srv'', ''retrieved_documents'', ''1.txt'']
                   (entries stub_world))\<rparr>)
   \<and> lookup stub_world [''srv'', ''retrieved_documents'', ''1.txt''] = Some (File ''stale'')
   \<and> lookup (stub_world\<lparr>entries :=
              AList.update [''srv'', ''retrieved_documents'', ''1.txt''] (File ''banana'')
                (AList.delete [''srv'', ''retrieved_documents'', ''1.txt'']
                   (entries stub_world))\<rparr>) [''srv'', ''retrieved_documents'', ''1.txt'']
       = Some (File ''banana'')"
proof -
  let ?ix = "\<lparr>dim = 2, vectors = [[5, 530], [6, 609]]\<rparr>"
  let ?m = "map_of [(0 :: int, ''sub''), (1, ''b.txt'')]"
  let ?s = "''/srv/retrieved_documents''"
  let ?w2 = "stub_world\<lparr>entries :=
              AList.update [''srv'', ''retrieved_documents'', ''1.txt''] (File ''banana'')
                (AList.delete [''srv'', ''retrieved_documents'', ''1.txt'']
                   (entries stub_world))\<rparr>"
  have a: "stub_encoder [''banana''] = Inr [[6, 609]]" by code_simp
  have b: "np_array [[6, 609]] = Inr [[6, 609]]" by code_simp
  have c: "index_search ?ix [[6, 609]] 3 = Inr ([[0, 6242, flt_max]], [[1, 0, - 1]])"
    by code_simp
  have d: "hd [[1, 0, - 1]] = [1] @ 0 # [- 1 :: int]" by simp
  have s: "?s = abspath (cwd stub_world) ''retrieved_documents''" by code_simp
  have e: "os_makedirs stub_world ?s = Inr stub_world" by code_simp
  have f: "load_model stub_platform ''gemini'' = Inr (\<lambda>content. Inr ''Yes'')"
    by (simp add: stub_platform_def)
  have g: "retrieve_loop stub_platform (\<lambda>content. Inr ''Yes'') ''banana'' ?m ?s [1] [] stub_world
             = (Inr [''/srv/retrieved_documents/1.txt''], ?w2)"
    by code_simp
  have h: "retrieve_one stub_platform (\<lambda>content. Inr ''Yes'') ''banana'' ?m ?s 0
             [''/srv/retrieved_documents/1.txt''] ?w2 = (Inl IsADirectoryError, ?w2)"
    by code_simp
  have i: "lookup stub_world [''srv'', ''retrieved_documents'', ''1.txt'']
             = Some (File ''stale'')"
    by code_simp
  have j: "lookup ?w2 [''srv'', ''retrieved_documents'', ''1.txt''] = Some (File ''banana'')"
    by code_simp
  note t = non_atomic_on_error[where model = stub_encoder and query = "''banana''"
      and enc = "[[6, 609]]" and qe = "[[6, 609]]" and faiss_index = ?ix and k = 3
      and D = "[[0, 6242, flt_max]]" and I = "[[1, 0, - 1]]" and pre = "[1]" and idx = 0
      and post = "[- 1]" and session = ?s and w = stub_world and ?w1.0 = stub_world
      and P = stub_platform and model_name = "''gemini''" and llm = "\<lambda>content. Inr ''Yes''"
      and filenames_mapping = ?m and ?files1.0 = "[''/srv/retrieved_documents/1.txt'']"
      and ?w2.0 = ?w2 and e = IsADirectoryError and ?w3.0 = ?w2]
  from t[OF a b c d s e f g h] i j show ?thesis by blast
qed

end
